theory Spec2Isabelle
  imports Complex_Main
begin

section \<open>Python values\<close>

text \<open>
  The client (\<^verbatim>\<open>src/kolhalashon/api.py\<close>) is dynamically typed: whatever
  \<^verbatim>\<open>response.json()\<close> decodes is handed on unchecked.  A decoded payload is one of
  Python's \<^verbatim>\<open>None\<close>, \<^verbatim>\<open>bool\<close>, \<^verbatim>\<open>int\<close>, \<^verbatim>\<open>float\<close>, \<^verbatim>\<open>str\<close>, \<^verbatim>\<open>list\<close> and \<^verbatim>\<open>dict\<close>.
  A \<^verbatim>\<open>dict\<close> is an association list read with \<open>map_of\<close>; a \<^verbatim>\<open>str\<close> is the list of its
  UTF-8 bytes (the code never looks inside a string, it only tests emptiness and
  concatenates).
\<close>

datatype pyfloat = Finite real | PosInf | NegInf | NaN

datatype json =
    JNull
  | JBool bool
  | JInt int
  | JFloat pyfloat
  | JStr string
  | JList "json list"
  | JObj "(string \<times> json) list"

text \<open>Python's truth value of a decoded payload, as tested by \<^verbatim>\<open>if token:\<close>.\<close>

fun truthy :: "json \<Rightarrow> bool" where
  "truthy JNull = False"
| "truthy (JBool b) = b"
| "truthy (JInt i) = (i \<noteq> 0)"
| "truthy (JFloat f) = (f \<noteq> Finite 0)"
| "truthy (JStr s) = (s \<noteq> [])"
| "truthy (JList xs) = (xs \<noteq> [])"
| "truthy (JObj d) = (d \<noteq> [])"

text \<open>\<^verbatim>\<open>isinstance(x, dict)\<close> and \<^verbatim>\<open>isinstance(x, str)\<close>.\<close>

fun is_dict :: "json \<Rightarrow> bool" where
  "is_dict (JObj d) = True"
| "is_dict _ = False"

fun is_str :: "json \<Rightarrow> bool" where
  "is_str (JStr s) = True"
| "is_str _ = False"

text \<open>\<^verbatim>\<open>d.get(k, dflt)\<close> on a \<^verbatim>\<open>dict\<close>.\<close>

definition dict_get :: "(string \<times> json) list \<Rightarrow> string \<Rightarrow> json \<Rightarrow> json" where
  "dict_get d k dflt = (case map_of d k of Some v \<Rightarrow> v | None \<Rightarrow> dflt)"

text \<open>
  An f-string renders an \<^verbatim>\<open>int\<close> in decimal, with a leading minus sign when negative.
\<close>

fun str_nat :: "nat \<Rightarrow> string" where
  "str_nat n =
     (if n < 10 then [''0123456789'' ! n]
      else str_nat (n div 10) @ [''0123456789'' ! (n mod 10)])"

declare str_nat.simps [simp del]

definition str_int :: "int \<Rightarrow> string" where
  "str_int i = (if i < 0 then CHR ''-'' # str_nat (nat (- i)) else str_nat (nat i))"

section \<open>Models and exceptions\<close>

text \<open>
  Modelled from the spec: \<^verbatim>\<open>kolhalashon/models/shiur.py\<close> is missing from the sources.
  \<open>QualityLevel\<close> has the three members of the glossary (audio-only, standard video,
  high-definition video); the number behind \<^verbatim>\<open>quality_level.value\<close> is not documented
  and is a parameter (\<open>quality_value\<close> below).
\<close>

datatype QualityLevel = AUDIO | VIDEO | HD

text \<open>
  Modelled from the spec: \<^verbatim>\<open>kolhalashon/models/shiur.py\<close> is missing from the sources.
  \<open>Shiur\<close> (the spec's SearchResultItem) and \<open>ShiurDetails\<close> are plain value records
  whose fields are the keyword arguments of the constructor calls in \<^verbatim>\<open>api.py\<close>; they
  hold what they are given (the spec: no validation of server-supplied data beyond
  defaulting missing fields).  The fields of \<open>ShiurDetails\<close> carry the prefix \<open>d_\<close>.
\<close>

record Shiur =
  file_id :: json
  title :: json
  rav :: json
  duration :: json
  record_date :: json
  main_topic :: json
  category_1 :: json
  category_2 :: json
  audio_available :: json
  video_available :: json
  hd_video_available :: json
  download_count :: json
  women_only :: json
  shiur_type :: json
  viewed_by_user :: json

record ShiurDetails =
  d_file_id :: json
  d_title :: json
  d_rav :: json
  d_duration :: json
  d_record_date :: json
  d_main_topic :: json
  d_audio_available :: json
  d_video_available :: json
  d_hd_video_available :: json
  d_categories :: "json list"

text \<open>
  The exceptions raised in \<^verbatim>\<open>api.py\<close>, each with the arguments its \<^verbatim>\<open>raise\<close> passes
  (\<^verbatim>\<open>kolhalashon/models/exceptions.py\<close> itself is missing from the sources), and the
  built-in ones that a payload of the wrong shape provokes: \<^verbatim>\<open>x.get\<close> on a value that
  is not a \<^verbatim>\<open>dict\<close> raises \<^verbatim>\<open>AttributeError\<close>, \<^verbatim>\<open>for _ in x\<close> on a value that is not
  iterable raises \<^verbatim>\<open>TypeError\<close>, \<^verbatim>\<open>response.json()\<close> on a body that is not JSON raises
  a decoding error.  \<open>MalformedResponseError\<close> is the kind the spec names for a payload that
  is not a mapping; no \<^verbatim>\<open>raise\<close> and no \<^verbatim>\<open>except\<close> of \<^verbatim>\<open>api.py\<close> mentions it.
\<close>

datatype exn =
    AuthenticationError string
  | SessionNotLoadedException
  | SessionDisabledException
  | SearchFailedException string int
  | DownloadFailedException string int int QualityLevel
  | ShiurDetailsNotFoundException int
  | MalformedResponseError
  | AttributeError
  | TypeError
  | JSONDecodeError

section \<open>The session manager\<close>

type_synonym hdrs = "(string \<times> string) list"

text \<open>
  \<^verbatim>\<open>src/kolhalashon/models/session.py\<close>: the \<^verbatim>\<open>SessionData\<close> typed dict.  The two
  \<^verbatim>\<open>Optional[str]\<close> entries hold whatever they are given (\<open>JNull\<close> is \<^verbatim>\<open>None\<close>); the
  annotation is not enforced at run time.
\<close>

record SessionData =
  cookies :: "(string \<times> string) list"
  auth_token :: json
  site_key :: json
  headers :: hdrs

record SessionManager =
  session_file :: string
  session_data :: SessionData

section \<open>HTTP, environment and effects\<close>

datatype http_method = GET | POST

text \<open>A request is what the client hands to \<^verbatim>\<open>session.get\<close> / \<^verbatim>\<open>session.post\<close>:
  the URL and the keyword arguments \<^verbatim>\<open>headers\<close>, \<^verbatim>\<open>json\<close> and \<^verbatim>\<open>stream\<close>.\<close>

record request =
  meth :: http_method
  url :: string
  req_headers :: hdrs
  req_json :: "json option"
  stream :: bool

text \<open>A response as the client reads it: \<^verbatim>\<open>status_code\<close>, \<^verbatim>\<open>text\<close>, the value of
  \<^verbatim>\<open>json()\<close> (\<open>None\<close> when the body does not decode) and the raw bytes.\<close>

record response =
  status_code :: int
  resp_text :: string
  resp_json :: "json option"
  resp_content :: string

text \<open>
  Everything the code of \<^verbatim>\<open>api.py\<close> depends on and does not define: the remote service
  (its answer may depend on the requests seen so far), the process environment, the
  persisted session files, and the parts of the missing modules that the spec leaves
  open.
\<close>

record env =
  server :: "request list \<Rightarrow> request \<Rightarrow> response"
  getenv :: "string \<Rightarrow> string option"
  persisted :: "string \<Rightarrow> SessionData option"
  authorization_value :: "json \<Rightarrow> string"
  other_headers :: "json \<Rightarrow> json \<Rightarrow> hdrs"
  download_key :: "SessionManager \<Rightarrow> int \<Rightarrow> exn + string"
  quality_value :: "QualityLevel \<Rightarrow> string"

text \<open>The effects of the client that an observer can see: the requests issued (oldest
  first), the lines printed, and the files written (newest first).\<close>

record world =
  net_log :: "request list"
  stdout :: "string list"
  files :: "(string \<times> string) list"

definition send :: "env \<Rightarrow> request \<Rightarrow> world \<Rightarrow> response \<times> world" where
  "send e rq w = (server e (net_log w) rq, w\<lparr>net_log := net_log w @ [rq]\<rparr>)"

definition print :: "string \<Rightarrow> world \<Rightarrow> world" where
  "print line w = w\<lparr>stdout := stdout w @ [line]\<rparr>"

definition response_json :: "response \<Rightarrow> exn + json" where
  "response_json r = (case resp_json r of None \<Rightarrow> Inl JSONDecodeError | Some j \<Rightarrow> Inr j)"

text \<open>\<^verbatim>\<open>response.iter_content(chunk_size)\<close>: the body in pieces of \<open>chunk_size\<close> bytes, the
  last one possibly shorter.\<close>

fun iter_content :: "nat \<Rightarrow> string \<Rightarrow> string list" where
  "iter_content chunk_size bs =
     (if chunk_size = 0 \<or> bs = [] then []
      else take chunk_size bs # iter_content chunk_size (drop chunk_size bs))"

declare iter_content.simps [simp del]

text \<open>
  \<^verbatim>\<open>kolhalashon/utils/session_manager.py\<close> is missing from the sources; the five
  operations of the session manager that \<^verbatim>\<open>api.py\<close> calls follow the spec's Session Store.
\<close>

text \<open>Modelled from the spec: the two fixed headers that, by the spec's section 6, all
  requests carry.  Three operations of \<^verbatim>\<open>api.py\<close> send the session manager's header
  mapping and nothing else, so that mapping holds them from the start.\<close>

definition fixed_headers :: hdrs where
  "fixed_headers = [(''origin'', ''https://www2.kolhalashon.com''),
                    (''referer'', ''https://www2.kolhalashon.com/'')]"

text \<open>Modelled from the spec: the header mapping the missing \<^verbatim>\<open>SessionManager\<close> derives
  from a token and a site key.  It includes an authorization header built from the
  token; the format of its value (\<open>authorization_value\<close>) and what else is derived
  (\<open>other_headers\<close>) are parameters.\<close>

definition derived_headers :: "env \<Rightarrow> json \<Rightarrow> json \<Rightarrow> hdrs" where
  "derived_headers e token key =
     fixed_headers @ (''authorization'', authorization_value e token) # other_headers e token key"

text \<open>Modelled from the spec: the constructor of the missing \<^verbatim>\<open>SessionManager\<close>.  The
  session state is created empty: no cookies, no token, no site key, and of the
  headers only the fixed ones.\<close>

definition SessionManager_init :: "string \<Rightarrow> SessionManager" where
  "SessionManager_init file =
     \<lparr>session_file = file,
      session_data = \<lparr>cookies = [], auth_token = JNull, site_key = JNull,
                      headers = fixed_headers\<rparr>\<rparr>"

text \<open>Modelled from the spec: \<^verbatim>\<open>load_session\<close> of the missing \<^verbatim>\<open>SessionManager\<close>.  It
  restores the session state from the persisted location and fails with
  \<open>SessionNotLoadedException\<close> if no persisted state exists or it cannot be parsed.\<close>

definition load_session :: "env \<Rightarrow> SessionManager \<Rightarrow> exn + SessionManager" where
  "load_session e sm =
     (case persisted e (session_file sm) of
        None \<Rightarrow> Inl SessionNotLoadedException
      | Some d \<Rightarrow> Inr (sm\<lparr>session_data := d\<rparr>))"

text \<open>Modelled from the spec: \<^verbatim>\<open>is_token_valid\<close> of the missing \<^verbatim>\<open>SessionManager\<close>.  It
  returns true only if the token is present and non-empty; a syntactic check that
  does not call the remote service.\<close>

definition is_token_valid :: "SessionManager \<Rightarrow> bool" where
  "is_token_valid sm =
     (case auth_token (session_data sm) of
        JNull \<Rightarrow> False
      | JStr s \<Rightarrow> s \<noteq> []
      | _ \<Rightarrow> True)"

text \<open>Modelled from the spec: \<^verbatim>\<open>set_tokens\<close> of the missing \<^verbatim>\<open>SessionManager\<close>.  It sets
  both fields together and recomputes the derived headers, which include an
  authorization header built from the token.\<close>

definition set_tokens :: "env \<Rightarrow> json \<Rightarrow> json \<Rightarrow> SessionManager \<Rightarrow> SessionManager" where
  "set_tokens e token key sm =
     sm\<lparr>session_data := (session_data sm)
          \<lparr>auth_token := token, site_key := key, headers := derived_headers e token key\<rparr>\<rparr>"

text \<open>Modelled from the spec: \<^verbatim>\<open>get_download_key\<close> of the missing \<^verbatim>\<open>SessionManager\<close>.  The
  short-lived key is requested afresh on every call, by collaborator-internal means:
  the parameter \<open>download_key\<close>, which may fail.\<close>

definition get_download_key :: "env \<Rightarrow> SessionManager \<Rightarrow> int \<Rightarrow> exn + string" where
  "get_download_key e sm fid = download_key e sm fid"

section \<open>The API client\<close>

text \<open>\<^verbatim>\<open>src/kolhalashon/api.py\<close>, class \<^verbatim>\<open>KolHalashonAPI\<close>.  The attributes \<^verbatim>\<open>_base_url\<close> and
  \<^verbatim>\<open>_headers\<close> are \<open>base_url\<close> and \<open>api_headers\<close>.\<close>

record KolHalashonAPI =
  username :: string
  password :: string
  base_url :: string
  api_headers :: hdrs
  use_session :: bool
  session_manager :: SessionManager

subsection \<open>Response mappers\<close>

text \<open>The body of the loop of \<^verbatim>\<open>format_shiurim\<close> (lines 117--133): one raw entry to one
  \<open>Shiur\<close>.  Every field is read with \<^verbatim>\<open>shiur.get(key, default)\<close>, which exists on a
  \<^verbatim>\<open>dict\<close> only.\<close>

fun format_shiur :: "json \<Rightarrow> exn + Shiur" where
  "format_shiur (JObj shiur) = Inr
     \<lparr>file_id = dict_get shiur ''FileId'' (JInt 0),
      title = dict_get shiur ''TitleHebrew'' (JStr []),
      rav = dict_get shiur ''UserNameHebrew'' (JStr []),
      duration = dict_get shiur ''ShiurDuration'' (JStr ''Unavailable''),
      record_date = dict_get shiur ''RecordDate'' (JStr []),
      main_topic = dict_get shiur ''MainTopicHebrew'' (JStr []),
      category_1 = dict_get shiur ''CatDesc1'' (JStr []),
      category_2 = dict_get shiur ''CatDesc2'' (JStr []),
      audio_available = dict_get shiur ''HasAudio'' (JBool False),
      video_available = dict_get shiur ''HasVideo'' (JBool False),
      hd_video_available = dict_get shiur ''HasHdVideo'' (JBool False),
      download_count = dict_get shiur ''DownloadCount'' (JInt 0),
      women_only = dict_get shiur ''IsWomenOnly'' (JBool False),
      shiur_type = dict_get shiur ''ShiurType'' (JStr ''Unavailable''),
      viewed_by_user = dict_get shiur ''ViewdByUser'' (JBool False)\<rparr>"
| "format_shiur _ = Inl AttributeError"

fun parse_shiur_details :: "json \<Rightarrow> exn + ShiurDetails" where
  "parse_shiur_details (JObj data) = Inr
     \<lparr>d_file_id = dict_get data ''FileId'' (JInt 0),
      d_title = dict_get data ''TitleHebrew'' (JStr []),
      d_rav = dict_get data ''UserNameHebrew'' (JStr []),
      d_duration = dict_get data ''ShiurDuration'' (JStr ''Unavailable''),
      d_record_date = dict_get data ''RecordDate'' (JStr []),
      d_main_topic = dict_get data ''MainTopicHebrew'' (JStr []),
      d_audio_available = dict_get data ''HasAudio'' (JBool False),
      d_video_available = dict_get data ''HasVideo'' (JBool False),
      d_hd_video_available = dict_get data ''HasHdVideo'' (JBool False),
      d_categories = [dict_get data ''CatDesc1'' (JStr []), dict_get data ''CatDesc2'' (JStr [])]\<rparr>"
| "parse_shiur_details _ = Inl AttributeError"

text \<open>
  \<^verbatim>\<open>format_shiurim\<close> is a generator function: the call runs nothing and returns a
  generator; each \<^verbatim>\<open>next\<close> runs the body up to the following \<^verbatim>\<open>yield\<close>.  The first
  \<^verbatim>\<open>next\<close> starts the \<^verbatim>\<open>for\<close> loop, which iterates a list by its elements, a dict by its
  keys and a string by its characters, and raises \<^verbatim>\<open>TypeError\<close> on anything else.
  A generator that has raised or returned is exhausted.
\<close>

datatype 'a step = Yield 'a | StopIteration | Raise exn

fun py_iter :: "json \<Rightarrow> exn + json list" where
  "py_iter (JList xs) = Inr xs"
| "py_iter (JObj d) = Inr (map JStr (remdups (map fst d)))"
| "py_iter (JStr s) = Inr (map (\<lambda>c. JStr [c]) s)"
| "py_iter _ = Inl TypeError"

datatype shiurim_gen = Fresh json | Iterating "json list" | Exhausted

definition format_shiurim :: "json \<Rightarrow> shiurim_gen" where
  "format_shiurim shiurim = Fresh shiurim"

fun loop_next :: "json list \<Rightarrow> Shiur step \<times> shiurim_gen" where
  "loop_next [] = (StopIteration, Exhausted)"
| "loop_next (shiur # rest) =
     (case format_shiur shiur of
        Inl x \<Rightarrow> (Raise x, Exhausted)
      | Inr s \<Rightarrow> (Yield s, Iterating rest))"

fun shiurim_next :: "shiurim_gen \<Rightarrow> Shiur step \<times> shiurim_gen" where
  "shiurim_next (Fresh shiurim) =
     (case py_iter shiurim of
        Inl x \<Rightarrow> (Raise x, Exhausted)
      | Inr xs \<Rightarrow> loop_next xs)"
| "shiurim_next (Iterating xs) = loop_next xs"
| "shiurim_next Exhausted = (StopIteration, Exhausted)"

subsection \<open>Construction and login\<close>

text \<open>\<^verbatim>\<open>__login\<close> (lines 36--51).  \<^verbatim>\<open>data.get\<close> raises \<^verbatim>\<open>AttributeError\<close> when the decoded
  body is not a dict.\<close>

definition login_request :: "KolHalashonAPI \<Rightarrow> string \<Rightarrow> string \<Rightarrow> request" where
  "login_request self usr pwd =
     \<lparr>meth = POST,
      url = base_url self @ ''Accounts/UserLogin/'',
      req_headers = api_headers self,
      req_json = Some (JObj [(''Username'', JStr usr), (''Password'', JStr pwd)]),
      stream = False\<rparr>"

definition login ::
  "env \<Rightarrow> KolHalashonAPI \<Rightarrow> string \<Rightarrow> string \<Rightarrow> world \<Rightarrow> (exn + bool) \<times> KolHalashonAPI \<times> world" where
  "login e self usr pwd w =
     (if usr = [] \<or> pwd = [] then
        (Inl (AuthenticationError ''Username and password are required''), self, w)
      else
        let (response, w') = send e (login_request self usr pwd) w in
          if status_code response = 200 then
            (case response_json response of
               Inl x \<Rightarrow> (Inl x, self, w')
             | Inr (JObj data) \<Rightarrow>
                 let token = dict_get data ''Token'' JNull in
                 if truthy token then
                   (Inr True,
                    self\<lparr>session_manager :=
                      set_tokens e token (dict_get data ''SiteKey'' (JStr [])) (session_manager self)\<rparr>,
                    w')
                 else (Inl (AuthenticationError ''Login successful but no token found''), self, w')
             | Inr _ \<Rightarrow> (Inl AttributeError, self, w'))
          else
            (Inl (AuthenticationError
               (''Login failed with status code '' @ str_int (status_code response))), self, w'))"

text \<open>\<^verbatim>\<open>_init_session\<close> (lines 27--34): only \<^verbatim>\<open>SessionNotLoadedException\<close> is caught, whether
  \<^verbatim>\<open>load_session\<close> raised it or the validity test did.\<close>

definition init_session ::
  "env \<Rightarrow> KolHalashonAPI \<Rightarrow> world \<Rightarrow> (exn + unit) \<times> KolHalashonAPI \<times> world" where
  "init_session e self w =
     (let fallback = (\<lambda>self.
            (case login e self (username self) (password self)
                    (print ''Session not found or invalid, attempting to login.'' w) of
               (Inl x, self', w') \<Rightarrow> (Inl x, self', w')
             | (Inr _, self', w') \<Rightarrow> (Inr (), self', w')))
      in
        case load_session e (session_manager self) of
          Inr sm \<Rightarrow>
            if is_token_valid sm then (Inr (), self\<lparr>session_manager := sm\<rparr>, w)
            else fallback (self\<lparr>session_manager := sm\<rparr>)
        | Inl x \<Rightarrow>
            if x = SessionNotLoadedException then fallback self
            else (Inl x, self, w))"

text \<open>\<^verbatim>\<open>__init__\<close> (lines 12--25): \<open>new_api\<close> is the object as the assignments of lines
  13--22 leave it, before \<^verbatim>\<open>_init_session\<close> runs.\<close>

definition new_api :: "env \<Rightarrow> string option \<Rightarrow> string option \<Rightarrow> bool \<Rightarrow> string \<Rightarrow> KolHalashonAPI" where
  "new_api e usr pwd use_sess file =
     (let from_env = (\<lambda>name. case getenv e name of None \<Rightarrow> [] | Some v \<Rightarrow> v) in
        \<lparr>username = (case usr of
                       None \<Rightarrow> from_env ''KOL_HALASHON_USERNAME''
                     | Some u \<Rightarrow> if u = [] then from_env ''KOL_HALASHON_USERNAME'' else u),
         password = (case pwd of
                       None \<Rightarrow> from_env ''KOL_HALASHON_PASSWORD''
                     | Some p \<Rightarrow> if p = [] then from_env ''KOL_HALASHON_PASSWORD'' else p),
         base_url = ''https://www2.kolhalashon.com:444/api/'',
         api_headers = [(''origin'', ''https://www2.kolhalashon.com''),
                        (''referer'', ''https://www2.kolhalashon.com/'')],
         use_session = use_sess,
         session_manager = SessionManager_init file\<rparr>)"

definition KolHalashonAPI_init ::
  "env \<Rightarrow> string option \<Rightarrow> string option \<Rightarrow> bool \<Rightarrow> string \<Rightarrow> world \<Rightarrow> (exn + KolHalashonAPI) \<times> world" where
  "KolHalashonAPI_init e usr pwd use_sess file w =
     (let self = new_api e usr pwd use_sess file in
        if use_sess then
          (case init_session e self w of
             (Inl x, _, w') \<Rightarrow> (Inl x, w')
           | (Inr _, self', w') \<Rightarrow> (Inr self', w'))
        else (Inr self, w))"

subsection \<open>Operations\<close>



text \<open>
  \<^verbatim>\<open>search_rav_shiurim\<close> (lines 64--80) is a generator function as well.  The call only
  creates the generator; the first \<^verbatim>\<open>next\<close> builds the request, posts it and, on status
  200, delegates to \<^verbatim>\<open>format_shiurim\<close> (\<^verbatim>\<open>yield from\<close>) until that one is exhausted.
\<close>

datatype rav_gen = Created int | Delegating shiurim_gen | Finished

definition search_rav_shiurim :: "KolHalashonAPI \<Rightarrow> int \<Rightarrow> world \<Rightarrow> rav_gen \<times> world" where
  "search_rav_shiurim self rav_id w = (Created rav_id, w)"

definition rav_request :: "KolHalashonAPI \<Rightarrow> int \<Rightarrow> request" where
  "rav_request self rav_id =
     \<lparr>meth = POST,
      url = base_url self @ ''Search/WebSite_GetRavShiurim/'',
      req_headers = headers (session_data (session_manager self)),
      req_json = Some (JObj
        [(''QueryType'', JInt (- 1)),
         (''LangID'', JInt (- 1)),
         (''MasechetID'', JInt (- 1)),
         (''DafNo'', JInt (- 1)),
         (''FromRow'', JInt 0),
         (''NumOfRows'', JInt 24),
         (''GeneralID'', JInt rav_id),
         (''FilterSwitch'', JStr (replicate 90 CHR ''1''))]),
      stream = False\<rparr>"

definition yield_from :: "shiurim_gen \<Rightarrow> Shiur step \<times> rav_gen" where
  "yield_from sub =
     (case shiurim_next sub of
        (Yield s, sub') \<Rightarrow> (Yield s, Delegating sub')
      | (StopIteration, _) \<Rightarrow> (StopIteration, Finished)
      | (Raise x, _) \<Rightarrow> (Raise x, Finished))"

definition rav_next ::
  "env \<Rightarrow> KolHalashonAPI \<Rightarrow> rav_gen \<Rightarrow> world \<Rightarrow> (Shiur step \<times> rav_gen) \<times> world" where
  "rav_next e self g w =
     (case g of
        Created rav_id \<Rightarrow>
          (let (response, w') = send e (rav_request self rav_id) w in
             if status_code response = 200 then
               (case response_json response of
                  Inl x \<Rightarrow> ((Raise x, Finished), w')
                | Inr shiurim \<Rightarrow> (yield_from (format_shiurim shiurim), w'))
             else
               ((Raise (SearchFailedException
                   (''Error fetching Rav Shiurim for Rav ID: '' @ str_int rav_id)
                   (status_code response)), Finished), w'))
      | Delegating sub \<Rightarrow> (yield_from sub, w)
      | Finished \<Rightarrow> ((StopIteration, Finished), w))"

text \<open>
  A consumer that iterates a generator to its end (\<^verbatim>\<open>list(g)\<close>, a \<^verbatim>\<open>for\<close> loop): the items
  yielded, in order, and the exception that ended the iteration, if one did.
\<close>

fun gen_size :: "shiurim_gen \<Rightarrow> nat" where
  "gen_size (Fresh shiurim) = (case py_iter shiurim of Inl _ \<Rightarrow> 0 | Inr xs \<Rightarrow> Suc (length xs))"
| "gen_size (Iterating xs) = length xs"
| "gen_size Exhausted = 0"

fun rav_phase :: "rav_gen \<Rightarrow> nat" where
  "rav_phase (Created _) = 1"
| "rav_phase _ = 0"

fun rav_size :: "rav_gen \<Rightarrow> nat" where
  "rav_size (Delegating sub) = gen_size sub"
| "rav_size _ = 0"

function shiurim_list :: "shiurim_gen \<Rightarrow> Shiur list \<times> exn option" where
  "shiurim_list g =
     (case shiurim_next g of
        (Yield s, g') \<Rightarrow> (case shiurim_list g' of (items, x) \<Rightarrow> (s # items, x))
      | (StopIteration, _) \<Rightarrow> ([], None)
      | (Raise x, _) \<Rightarrow> ([], Some x))"
  by pat_completeness auto

lemma shiurim_next_decreases:
  "shiurim_next g = (Yield s, g') \<Longrightarrow> gen_size g' < gen_size g"
  by (cases g; cases "shiurim_next g")
     (auto split: sum.splits list.splits elim!: loop_next.elims)

termination shiurim_list
  by (relation "measure gen_size") (auto dest: shiurim_next_decreases [OF sym])

function rav_list ::
  "env \<Rightarrow> KolHalashonAPI \<Rightarrow> rav_gen \<Rightarrow> world \<Rightarrow> (Shiur list \<times> exn option) \<times> world" where
  "rav_list e self g w =
     (case rav_next e self g w of
        ((Yield s, g'), w') \<Rightarrow>
          (case rav_list e self g' w' of ((items, x), w'') \<Rightarrow> ((s # items, x), w''))
      | ((StopIteration, _), w') \<Rightarrow> (([], None), w')
      | ((Raise x, _), w') \<Rightarrow> (([], Some x), w'))"
  by pat_completeness auto

lemma yield_from_decreases:
  "yield_from sub = (Yield s, g') \<Longrightarrow> rav_phase g' = 0 \<and> rav_size g' < gen_size sub"
  by (auto simp: yield_from_def split: prod.splits step.splits dest: shiurim_next_decreases)

lemma rav_next_decreases:
  "rav_next e self g w = ((Yield s, g'), w') \<Longrightarrow>
     rav_phase g' < rav_phase g \<or> rav_phase g' = rav_phase g \<and> rav_size g' < rav_size g"
  by (cases g)
     (auto simp: rav_next_def split: prod.splits if_splits sum.splits dest: yield_from_decreases)

termination rav_list
  by (relation "measures [\<lambda>(e, self, g, w). rav_phase g, \<lambda>(e, self, g, w). rav_size g]")
     (auto dest!: rav_next_decreases [OF sym])

text \<open>\<^verbatim>\<open>download_file\<close> (lines 83--100).  Opening the file for writing creates or
  truncates it; the chunks of the body are written in order.\<close>

definition download_url :: "env \<Rightarrow> KolHalashonAPI \<Rightarrow> int \<Rightarrow> QualityLevel \<Rightarrow> string \<Rightarrow> string" where
  "download_url e self fid quality_level dkey =
     base_url self @ ''files/GetFileDownload/'' @ str_int fid @ ''/''
       @ quality_value e quality_level @ ''/'' @ dkey @ ''/null/false/false''"

definition download_request ::
  "env \<Rightarrow> KolHalashonAPI \<Rightarrow> int \<Rightarrow> QualityLevel \<Rightarrow> string \<Rightarrow> request" where
  "download_request e self fid quality_level dkey =
     \<lparr>meth = GET,
      url = download_url e self fid quality_level dkey,
      req_headers = headers (session_data (session_manager self)),
      req_json = None,
      stream = True\<rparr>"

definition download_file ::
  "env \<Rightarrow> KolHalashonAPI \<Rightarrow> int \<Rightarrow> QualityLevel \<Rightarrow> world \<Rightarrow> (exn + string) \<times> world" where
  "download_file e self fid quality_level w =
     (if \<not> use_session self then (Inl SessionDisabledException, w)
      else
        case get_download_key e (session_manager self) fid of
          Inl x \<Rightarrow> (Inl x, w)
        | Inr dkey \<Rightarrow>
            (let w1 = print (download_url e self fid quality_level dkey) w;
                 file_extension = (if quality_level = AUDIO then ''mp3'' else ''mp4'');
                 quality_name = (if quality_level = AUDIO then ''audio''
                                 else if quality_level = VIDEO then ''video'' else ''hd'');
                 file_name = ''shiur_'' @ str_int fid @ ''_'' @ quality_name @ ''.'' @ file_extension;
                 (response, w2) = send e (download_request e self fid quality_level dkey) w1
             in
               if status_code response = 200 then
                 (Inr file_name,
                  w2\<lparr>files := (file_name,
                                 foldl (\<lambda>written chunk. written @ chunk) []
                                   (iter_content 8192 (resp_content response))) # files w2\<rparr>)
               else
                 (Inl (DownloadFailedException ''Download failed'' (status_code response) fid
                         quality_level), w2)))"

text \<open>\<^verbatim>\<open>get_shiur_details\<close> (lines 104--110).\<close>

definition details_request :: "KolHalashonAPI \<Rightarrow> int \<Rightarrow> request" where
  "details_request self fid =
     \<lparr>meth = GET,
      url = base_url self @ ''TblShiurimLists/WebSite_GetShiurDetails/'' @ str_int fid,
      req_headers = headers (session_data (session_manager self)),
      req_json = None,
      stream = False\<rparr>"

definition get_shiur_details ::
  "env \<Rightarrow> KolHalashonAPI \<Rightarrow> int \<Rightarrow> world \<Rightarrow> (exn + ShiurDetails) \<times> world" where
  "get_shiur_details e self fid w =
     (let (response, w') = send e (details_request self fid) w in
        if status_code response = 200 then
          (case response_json response of
             Inl x \<Rightarrow> (Inl x, w')
           | Inr data \<Rightarrow> (parse_shiur_details data, w'))
        else (Inl (ShiurDetailsNotFoundException fid), w'))"

declare shiurim_list.simps [simp del]

declare rav_list.simps [simp del]

subsection \<open>A sample service\<close>

text \<open>
  A concrete environment on which the operations can be evaluated: a service that
  answers every request with the same status and decoded body, no environment
  variables, one persisted session (or none), bearer-style authorization values.
  \<open>shalom\<close> is the UTF-8 encoding of the Hebrew word used in the spec's search scenario.
\<close>

definition shalom :: string where
  "shalom = [CHR 0xD7, CHR 0xA9, CHR 0xD7, CHR 0x9C, CHR 0xD7, CHR 0x95, CHR 0xD7, CHR 0x9D]"

definition demo_response :: "int \<Rightarrow> json option \<Rightarrow> response" where
  "demo_response code body =
     \<lparr>status_code = code, resp_text = ''text'', resp_json = body, resp_content = ''0123456789''\<rparr>"

definition demo_authorization :: "json \<Rightarrow> string" where
  "demo_authorization token = ''Bearer '' @ (case token of JStr t \<Rightarrow> t | _ \<Rightarrow> ''?'')"

definition demo_env :: "int \<Rightarrow> json option \<Rightarrow> SessionData option \<Rightarrow> env" where
  "demo_env code body saved =
     \<lparr>server = (\<lambda>log rq. demo_response code body),
      getenv = (\<lambda>name. None),
      persisted = (\<lambda>file. saved),
      authorization_value = demo_authorization,
      other_headers = (\<lambda>token key. []),
      download_key = (\<lambda>sm fid. Inr ''k''),
      quality_value = (\<lambda>q. case q of AUDIO \<Rightarrow> ''1'' | VIDEO \<Rightarrow> ''2'' | HD \<Rightarrow> ''3'')\<rparr>"

definition demo_world :: world where
  "demo_world = \<lparr>net_log = [], stdout = [], files = []\<rparr>"

definition demo_api :: "bool \<Rightarrow> KolHalashonAPI" where
  "demo_api use_sess =
     \<lparr>username = ''user'',
      password = ''pw'',
      base_url = ''https://www2.kolhalashon.com:444/api/'',
      api_headers = [(''origin'', ''https://www2.kolhalashon.com''),
                     (''referer'', ''https://www2.kolhalashon.com/'')],
      use_session = use_sess,
      session_manager = SessionManager_init ''session.pkl''\<rparr>"

definition demo_saved :: "json \<Rightarrow> SessionData" where
  "demo_saved token =
     \<lparr>cookies = [], auth_token = token, site_key = JStr ''key'',
      headers = fixed_headers @ [(''authorization'', demo_authorization token)]\<rparr>"


section \<open>Iterating the generators\<close>

lemma shiurim_list_Nil: "shiurim_list (Iterating []) = ([], None)"
  by (subst shiurim_list.simps) simp

lemma shiurim_list_Cons:
  "shiurim_list (Iterating (x # xs)) =
     (case format_shiur x of
        Inl err \<Rightarrow> ([], Some err)
      | Inr s \<Rightarrow> (case shiurim_list (Iterating xs) of (items, r) \<Rightarrow> (s # items, r)))"
  by (subst shiurim_list.simps) (simp split: sum.splits)

lemma shiurim_list_Fresh:
  "shiurim_list (Fresh j) =
     (case py_iter j of Inl err \<Rightarrow> ([], Some err) | Inr xs \<Rightarrow> shiurim_list (Iterating xs))"
  apply (subst shiurim_list.simps)
  apply (subst (2) shiurim_list.simps)
  apply (simp split: sum.splits)
  done

lemma shiurim_list_dicts:
  "\<exists>items. shiurim_list (Iterating (map JObj ds)) = (items, None)
      \<and> map Inr items = map (\<lambda>d. format_shiur (JObj d)) ds"
proof (induction ds)
  case Nil
  show ?case by (simp add: shiurim_list_Nil)
next
  case (Cons d ds)
  then obtain items where
    "shiurim_list (Iterating (map JObj ds)) = (items, None)"
    "map Inr items = map (\<lambda>d. format_shiur (JObj d)) ds"
    by blast
  then show ?case by (simp add: shiurim_list_Cons)
qed

section \<open>The response mappers\<close>

text \<open>
  C1.  For every raw entry that is a mapping, the search-item mapper produces a \<open>Shiur\<close>
  in which every field is populated: the raw value under the documented key when the
  key is present, the documented default otherwise.  Run over a list of mappings, the
  generator \<open>format_shiurim\<close> yields one item per entry and ends without an error.  On the
  spec's scenario (one entry with \<open>FileId\<close> 42 and a Hebrew title) it yields exactly one
  item with file id 42, that title, duration "Unavailable", no audio and download
  count 0.
\<close>

theorem format_shiurim_populates_every_field:
  "(\<exists>s. format_shiur (JObj d) = Inr s
      \<and> file_id s = (case map_of d ''FileId'' of None \<Rightarrow> JInt 0 | Some v \<Rightarrow> v)
      \<and> title s = (case map_of d ''TitleHebrew'' of None \<Rightarrow> JStr [] | Some v \<Rightarrow> v)
      \<and> rav s = (case map_of d ''UserNameHebrew'' of None \<Rightarrow> JStr [] | Some v \<Rightarrow> v)
      \<and> duration s = (case map_of d ''ShiurDuration'' of None \<Rightarrow> JStr ''Unavailable'' | Some v \<Rightarrow> v)
      \<and> record_date s = (case map_of d ''RecordDate'' of None \<Rightarrow> JStr [] | Some v \<Rightarrow> v)
      \<and> main_topic s = (case map_of d ''MainTopicHebrew'' of None \<Rightarrow> JStr [] | Some v \<Rightarrow> v)
      \<and> category_1 s = (case map_of d ''CatDesc1'' of None \<Rightarrow> JStr [] | Some v \<Rightarrow> v)
      \<and> category_2 s = (case map_of d ''CatDesc2'' of None \<Rightarrow> JStr [] | Some v \<Rightarrow> v)
      \<and> audio_available s = (case map_of d ''HasAudio'' of None \<Rightarrow> JBool False | Some v \<Rightarrow> v)
      \<and> video_available s = (case map_of d ''HasVideo'' of None \<Rightarrow> JBool False | Some v \<Rightarrow> v)
      \<and> hd_video_available s = (case map_of d ''HasHdVideo'' of None \<Rightarrow> JBool False | Some v \<Rightarrow> v)
      \<and> download_count s = (case map_of d ''DownloadCount'' of None \<Rightarrow> JInt 0 | Some v \<Rightarrow> v)
      \<and> women_only s = (case map_of d ''IsWomenOnly'' of None \<Rightarrow> JBool False | Some v \<Rightarrow> v)
      \<and> shiur_type s = (case map_of d ''ShiurType'' of None \<Rightarrow> JStr ''Unavailable'' | Some v \<Rightarrow> v)
      \<and> viewed_by_user s = (case map_of d ''ViewdByUser'' of None \<Rightarrow> JBool False | Some v \<Rightarrow> v))
   \<and> (\<exists>items. shiurim_list (format_shiurim (JList (map JObj ds))) = (items, None)
         \<and> map Inr items = map (\<lambda>d. format_shiur (JObj d)) ds)
   \<and> (\<exists>s. shiurim_list (format_shiurim
              (JList [JObj [(''FileId'', JInt 42), (''TitleHebrew'', JStr shalom)]])) = ([s], None)
         \<and> file_id s = JInt 42
         \<and> title s = JStr shalom
         \<and> duration s = JStr ''Unavailable''
         \<and> audio_available s = JBool False
         \<and> download_count s = JInt 0)"
proof (intro conjI)
  show "\<exists>items. shiurim_list (format_shiurim (JList (map JObj ds))) = (items, None)
          \<and> map Inr items = map (\<lambda>d. format_shiur (JObj d)) ds"
    using shiurim_list_dicts [of ds] by (simp add: format_shiurim_def shiurim_list_Fresh)
qed (simp_all add: dict_get_def format_shiurim_def shiurim_list_Fresh shiurim_list_Cons
       shiurim_list_Nil)

text \<open>
  C8 (as amended).  A response mapper fails exactly on an input that is not a mapping,
  and then with Python's \<open>AttributeError\<close>; on a mapping it never fails, whatever keys are
  missing.  This holds for the search-item mapper and for the shiur-details mapper.
\<close>

theorem mappers_fail_only_on_non_mappings:
  "(format_shiur raw = Inl x \<longleftrightarrow> \<not> is_dict raw \<and> x = AttributeError)
   \<and> (parse_shiur_details raw = Inl x \<longleftrightarrow> \<not> is_dict raw \<and> x = AttributeError)
   \<and> (is_dict raw \<longleftrightarrow> (\<exists>s. format_shiur raw = Inr s))
   \<and> (is_dict raw \<longleftrightarrow> (\<exists>s. parse_shiur_details raw = Inr s))"
  by (cases raw) auto

text \<open>
  C8 as stated fails: handed the number 5, both mappers raise \<open>AttributeError\<close>, not
  \<open>MalformedResponseError\<close>.
\<close>

theorem mappers_raise_AttributeError_counterexample:
  "format_shiur (JInt 5) = Inl AttributeError
   \<and> format_shiur (JInt 5) \<noteq> Inl MalformedResponseError
   \<and> parse_shiur_details (JInt 5) = Inl AttributeError
   \<and> parse_shiur_details (JInt 5) \<noteq> Inl MalformedResponseError"
  by simp

section \<open>Login and construction\<close>

text \<open>
  \<open>login\<close> in closed form: the outcome as a function of the credentials, the status
  and the decoded body of the one response.
\<close>

lemma login_unfold:
  "login e self usr pwd w =
     (if usr = [] \<or> pwd = [] then
        (Inl (AuthenticationError ''Username and password are required''), self, w)
      else if status_code (server e (net_log w) (login_request self usr pwd)) \<noteq> 200 then
        (Inl (AuthenticationError (''Login failed with status code ''
            @ str_int (status_code (server e (net_log w) (login_request self usr pwd))))),
         self, w\<lparr>net_log := net_log w @ [login_request self usr pwd]\<rparr>)
      else
        (case resp_json (server e (net_log w) (login_request self usr pwd)) of
           None \<Rightarrow> (Inl JSONDecodeError, self, w\<lparr>net_log := net_log w @ [login_request self usr pwd]\<rparr>)
         | Some j \<Rightarrow>
             (if is_dict j then
                (case j of JObj data \<Rightarrow>
                  (case map_of data ''Token'' of
                     None \<Rightarrow> (Inl (AuthenticationError ''Login successful but no token found''), self,
                              w\<lparr>net_log := net_log w @ [login_request self usr pwd]\<rparr>)
                   | Some token \<Rightarrow>
                       if truthy token then
                         (Inr True,
                          self\<lparr>session_manager :=
                            set_tokens e token (case map_of data ''SiteKey'' of None \<Rightarrow> JStr [] | Some k \<Rightarrow> k)
                              (session_manager self)\<rparr>,
                          w\<lparr>net_log := net_log w @ [login_request self usr pwd]\<rparr>)
                       else (Inl (AuthenticationError ''Login successful but no token found''), self,
                             w\<lparr>net_log := net_log w @ [login_request self usr pwd]\<rparr>)))
              else (Inl AttributeError, self, w\<lparr>net_log := net_log w @ [login_request self usr pwd]\<rparr>))))"
proof (cases "resp_json (server e (net_log w) (login_request self usr pwd))")
  case None
  then show ?thesis
    by (simp add: login_def send_def response_json_def)
next
  case (Some j)
  then show ?thesis
    by (cases j) (simp_all add: login_def send_def response_json_def dict_get_def split: option.splits)
qed

lemma login_logs_request:
  "usr \<noteq> [] \<Longrightarrow> pwd \<noteq> [] \<Longrightarrow>
     snd (snd (login e self usr pwd w)) = w\<lparr>net_log := net_log w @ [login_request self usr pwd]\<rparr>"
proof (cases "resp_json (server e (net_log w) (login_request self usr pwd))")
  case None
  assume "usr \<noteq> []" "pwd \<noteq> []"
  with None show ?thesis by (simp add: login_unfold)
next
  case (Some j)
  assume "usr \<noteq> []" "pwd \<noteq> []"
  with Some show ?thesis
    by (cases j) (simp_all add: login_unfold split: option.splits)
qed

lemma login_keeps_stdout: "stdout (snd (snd (login e self usr pwd w))) = stdout w"
  by (auto simp: login_def send_def Let_def split: sum.splits json.splits prod.splits)

text \<open>
  C2 (as amended).  For every username and password: with an empty username or an
  empty password \<open>login\<close> raises \<open>AuthenticationError\<close> and the world is untouched (no
  request).  Otherwise it issues exactly one request, a POST to the login endpoint,
  whatever the outcome, and then:
  a status other than 200 raises \<open>AuthenticationError\<close> with the status code in its
  message;
  a 200 response whose body does not decode raises the decoding error;
  a 200 response whose body decodes to something that is not a mapping raises
  \<open>AttributeError\<close>;
  a 200 response whose body is a mapping with no \<open>Token\<close>, or with a \<open>Token\<close> that is not
  truthy, raises \<open>AuthenticationError\<close>;
  a 200 response whose body is a mapping with a truthy \<open>Token\<close> succeeds, the session
  manager being the old one after \<open>set_tokens\<close> with that token and the body's \<open>SiteKey\<close>,
  the empty string when the body has none.
  In every failing case the client is returned as it was.  The cases are exhaustive.
\<close>

theorem login_outcomes:
  "(usr = [] \<or> pwd = [] \<longrightarrow>
       login e self usr pwd w =
         (Inl (AuthenticationError ''Username and password are required''), self, w))
   \<and> (usr \<noteq> [] \<and> pwd \<noteq> [] \<longrightarrow>
        meth (login_request self usr pwd) = POST
      \<and> snd (snd (login e self usr pwd w)) = w\<lparr>net_log := net_log w @ [login_request self usr pwd]\<rparr>
      \<and> (status_code (server e (net_log w) (login_request self usr pwd)) \<noteq> 200 \<longrightarrow>
            login e self usr pwd w =
              (Inl (AuthenticationError (''Login failed with status code ''
                 @ str_int (status_code (server e (net_log w) (login_request self usr pwd))))),
               self, w\<lparr>net_log := net_log w @ [login_request self usr pwd]\<rparr>))
      \<and> (status_code (server e (net_log w) (login_request self usr pwd)) = 200
           \<and> resp_json (server e (net_log w) (login_request self usr pwd)) = None \<longrightarrow>
            login e self usr pwd w =
              (Inl JSONDecodeError, self, w\<lparr>net_log := net_log w @ [login_request self usr pwd]\<rparr>))
      \<and> (status_code (server e (net_log w) (login_request self usr pwd)) = 200
           \<and> resp_json (server e (net_log w) (login_request self usr pwd)) = Some body
           \<and> \<not> is_dict body \<longrightarrow>
            login e self usr pwd w =
              (Inl AttributeError, self, w\<lparr>net_log := net_log w @ [login_request self usr pwd]\<rparr>))
      \<and> (status_code (server e (net_log w) (login_request self usr pwd)) = 200
           \<and> resp_json (server e (net_log w) (login_request self usr pwd)) = Some (JObj data)
           \<and> map_of data ''Token'' = None \<longrightarrow>
            login e self usr pwd w =
              (Inl (AuthenticationError ''Login successful but no token found''),
               self, w\<lparr>net_log := net_log w @ [login_request self usr pwd]\<rparr>))
      \<and> (status_code (server e (net_log w) (login_request self usr pwd)) = 200
           \<and> resp_json (server e (net_log w) (login_request self usr pwd)) = Some (JObj data)
           \<and> map_of data ''Token'' = Some token \<and> \<not> truthy token \<longrightarrow>
            login e self usr pwd w =
              (Inl (AuthenticationError ''Login successful but no token found''),
               self, w\<lparr>net_log := net_log w @ [login_request self usr pwd]\<rparr>))
      \<and> (status_code (server e (net_log w) (login_request self usr pwd)) = 200
           \<and> resp_json (server e (net_log w) (login_request self usr pwd)) = Some (JObj data)
           \<and> map_of data ''Token'' = Some token \<and> truthy token \<longrightarrow>
            login e self usr pwd w =
              (Inr True,
               self\<lparr>session_manager :=
                 set_tokens e token (case map_of data ''SiteKey'' of None \<Rightarrow> JStr [] | Some k \<Rightarrow> k)
                   (session_manager self)\<rparr>,
               w\<lparr>net_log := net_log w @ [login_request self usr pwd]\<rparr>)))"
proof -
  have "\<lbrakk>usr \<noteq> []; pwd \<noteq> [];
          status_code (server e (net_log w) (login_request self usr pwd)) = 200;
          resp_json (server e (net_log w) (login_request self usr pwd)) = Some body;
          \<not> is_dict body\<rbrakk> \<Longrightarrow>
        login e self usr pwd w =
          (Inl AttributeError, self, w\<lparr>net_log := net_log w @ [login_request self usr pwd]\<rparr>)"
    by (simp add: login_unfold)
  then show ?thesis
    by (simp add: login_logs_request) (simp add: login_unfold login_request_def)
qed

text \<open>
  C2 (as amended) evaluated on the sample service, once per case.
\<close>

theorem login_outcomes_witness:
  "login (demo_env 200 None None) (demo_api True) [] ''pw'' demo_world =
     (Inl (AuthenticationError ''Username and password are required''), demo_api True, demo_world)
   \<and> login (demo_env 403 None None) (demo_api True) ''user'' ''pw'' demo_world =
       (Inl (AuthenticationError ''Login failed with status code 403''), demo_api True,
        demo_world\<lparr>net_log := [login_request (demo_api True) ''user'' ''pw'']\<rparr>)
   \<and> login (demo_env 200 None None) (demo_api True) ''user'' ''pw'' demo_world =
       (Inl JSONDecodeError, demo_api True,
        demo_world\<lparr>net_log := [login_request (demo_api True) ''user'' ''pw'']\<rparr>)
   \<and> login (demo_env 200 (Some (JList [])) None) (demo_api True) ''user'' ''pw'' demo_world =
       (Inl AttributeError, demo_api True,
        demo_world\<lparr>net_log := [login_request (demo_api True) ''user'' ''pw'']\<rparr>)
   \<and> login (demo_env 200 (Some (JObj [(''SiteKey'', JStr ''key'')])) None) (demo_api True)
         ''user'' ''pw'' demo_world =
       (Inl (AuthenticationError ''Login successful but no token found''), demo_api True,
        demo_world\<lparr>net_log := [login_request (demo_api True) ''user'' ''pw'']\<rparr>)
   \<and> login (demo_env 200 (Some (JObj [(''Token'', JInt 0)])) None) (demo_api True)
         ''user'' ''pw'' demo_world =
       (Inl (AuthenticationError ''Login successful but no token found''), demo_api True,
        demo_world\<lparr>net_log := [login_request (demo_api True) ''user'' ''pw'']\<rparr>)
   \<and> login (demo_env 200 (Some (JObj [(''Token'', JStr ''tok'')])) None) (demo_api True)
         ''user'' ''pw'' demo_world =
       (Inr True,
        (demo_api True)\<lparr>session_manager :=
           \<lparr>session_file = ''session.pkl'',
            session_data = \<lparr>cookies = [], auth_token = JStr ''tok'', site_key = JStr [],
                            headers = fixed_headers @ [(''authorization'', ''Bearer tok'')]\<rparr>\<rparr>\<rparr>,
        demo_world\<lparr>net_log := [login_request (demo_api True) ''user'' ''pw'']\<rparr>)"
proof -
  note defs = demo_env_def demo_response_def demo_world_def demo_api_def set_tokens_def
    SessionManager_init_def str_int_def str_nat.simps derived_headers_def demo_authorization_def
  have c1: "login (demo_env 200 None None) (demo_api True) [] ''pw'' demo_world =
     (Inl (AuthenticationError ''Username and password are required''), demo_api True, demo_world)"
    using login_outcomes
          [where usr = "[]" and pwd = "''pw''" and e = "demo_env 200 None None"
             and self = "demo_api True" and w = demo_world and data = "[]" and token = JNull
             and body = JNull]
    by simp
  have c2: "login (demo_env 403 None None) (demo_api True) ''user'' ''pw'' demo_world =
       (Inl (AuthenticationError ''Login failed with status code 403''), demo_api True,
        demo_world\<lparr>net_log := [login_request (demo_api True) ''user'' ''pw'']\<rparr>)"
    using login_outcomes
          [where usr = "''user''" and pwd = "''pw''" and e = "demo_env 403 None None"
             and self = "demo_api True" and w = demo_world and data = "[]" and token = JNull
             and body = JNull]
    by (simp add: defs)
  have c3: "login (demo_env 200 None None) (demo_api True) ''user'' ''pw'' demo_world =
       (Inl JSONDecodeError, demo_api True,
        demo_world\<lparr>net_log := [login_request (demo_api True) ''user'' ''pw'']\<rparr>)"
    using login_outcomes
          [where usr = "''user''" and pwd = "''pw''" and e = "demo_env 200 None None"
             and self = "demo_api True" and w = demo_world and data = "[]" and token = JNull
             and body = JNull]
    by (simp add: defs)
  have c4: "login (demo_env 200 (Some (JList [])) None) (demo_api True) ''user'' ''pw'' demo_world =
       (Inl AttributeError, demo_api True,
        demo_world\<lparr>net_log := [login_request (demo_api True) ''user'' ''pw'']\<rparr>)"
    using login_outcomes
          [where usr = "''user''" and pwd = "''pw''" and e = "demo_env 200 (Some (JList [])) None"
             and self = "demo_api True" and w = demo_world and data = "[]" and token = JNull
             and body = "JList []"]
    by (simp add: defs)
  have c5: "login (demo_env 200 (Some (JObj [(''SiteKey'', JStr ''key'')])) None) (demo_api True)
         ''user'' ''pw'' demo_world =
       (Inl (AuthenticationError ''Login successful but no token found''), demo_api True,
        demo_world\<lparr>net_log := [login_request (demo_api True) ''user'' ''pw'']\<rparr>)"
    using login_outcomes
          [where usr = "''user''" and pwd = "''pw''"
             and e = "demo_env 200 (Some (JObj [(''SiteKey'', JStr ''key'')])) None"
             and self = "demo_api True" and w = demo_world
             and data = "[(''SiteKey'', JStr ''key'')]" and token = JNull and body = JNull]
    by (simp add: defs)
  have c6: "login (demo_env 200 (Some (JObj [(''Token'', JInt 0)])) None) (demo_api True)
         ''user'' ''pw'' demo_world =
       (Inl (AuthenticationError ''Login successful but no token found''), demo_api True,
        demo_world\<lparr>net_log := [login_request (demo_api True) ''user'' ''pw'']\<rparr>)"
    using login_outcomes
          [where usr = "''user''" and pwd = "''pw''"
             and e = "demo_env 200 (Some (JObj [(''Token'', JInt 0)])) None"
             and self = "demo_api True" and w = demo_world
             and data = "[(''Token'', JInt 0)]" and token = "JInt 0" and body = JNull]
    by (simp add: defs)
  have c7: "login (demo_env 200 (Some (JObj [(''Token'', JStr ''tok'')])) None) (demo_api True)
         ''user'' ''pw'' demo_world =
       (Inr True,
        (demo_api True)\<lparr>session_manager :=
           \<lparr>session_file = ''session.pkl'',
            session_data = \<lparr>cookies = [], auth_token = JStr ''tok'', site_key = JStr [],
                            headers = fixed_headers @ [(''authorization'', ''Bearer tok'')]\<rparr>\<rparr>\<rparr>,
        demo_world\<lparr>net_log := [login_request (demo_api True) ''user'' ''pw'']\<rparr>)"
    using login_outcomes
          [where usr = "''user''" and pwd = "''pw''"
             and e = "demo_env 200 (Some (JObj [(''Token'', JStr ''tok'')])) None"
             and self = "demo_api True" and w = demo_world
             and data = "[(''Token'', JStr ''tok'')]" and token = "JStr ''tok''" and body = JNull]
    by (simp add: defs)
  show ?thesis
    using c1 c2 c3 c4 c5 c6 c7 by blast
qed

text \<open>
  C2 as stated fails: a 200 response whose body is the empty list, or \<^verbatim>\<open>null\<close>, contains
  no \<open>Token\<close>, yet \<open>login\<close> raises \<open>AttributeError\<close>, not \<open>AuthenticationError\<close>; a 200
  response whose body does not decode raises the decoding error.
\<close>

theorem login_malformed_body_counterexample:
  "status_code (demo_response 200 (Some (JList []))) = 200
   \<and> resp_json (demo_response 200 (Some (JList []))) = Some (JList [])
   \<and> fst (login (demo_env 200 (Some (JList [])) None) (demo_api True) ''user'' ''pw'' demo_world) =
       Inl AttributeError
   \<and> fst (login (demo_env 200 (Some JNull) None) (demo_api True) ''user'' ''pw'' demo_world) =
       Inl AttributeError
   \<and> fst (login (demo_env 200 None None) (demo_api True) ''user'' ''pw'' demo_world) =
       Inl JSONDecodeError"
  by (simp add: login_unfold demo_env_def demo_response_def)

text \<open>
  C3.  \<open>init_session\<close>, which the constructor runs exactly when session-backed mode is
  requested, first loads the persisted session and tests the token.  When the load
  succeeds and the token is valid, no login occurs: the result is the loaded session
  and the world is untouched.  When the load succeeds and the token is invalid, or the
  load fails with \<open>SessionNotLoadedException\<close>, the outcome is that of \<open>login\<close> with the
  configured credentials, after the notice has been printed.
\<close>

theorem init_session_login_policy:
  "(load_session e (session_manager self) = Inr sm \<and> is_token_valid sm \<longrightarrow>
      init_session e self w = (Inr (), self\<lparr>session_manager := sm\<rparr>, w))
   \<and> (load_session e (session_manager self) = Inr sm \<and> \<not> is_token_valid sm \<longrightarrow>
      init_session e self w =
        (case login e (self\<lparr>session_manager := sm\<rparr>) (username self) (password self)
                (print ''Session not found or invalid, attempting to login.'' w) of
           (r, self', w') \<Rightarrow> (map_sum id (\<lambda>_. ()) r, self', w'))
      \<and> stdout (snd (snd (init_session e self w))) =
          stdout w @ [''Session not found or invalid, attempting to login.''])
   \<and> (load_session e (session_manager self) = Inl SessionNotLoadedException \<longrightarrow>
      init_session e self w =
        (case login e self (username self) (password self)
                (print ''Session not found or invalid, attempting to login.'' w) of
           (r, self', w') \<Rightarrow> (map_sum id (\<lambda>_. ()) r, self', w'))
      \<and> stdout (snd (snd (init_session e self w))) =
          stdout w @ [''Session not found or invalid, attempting to login.''])
   \<and> KolHalashonAPI_init e usr pwd True path w =
       (case init_session e (new_api e usr pwd True path) w of
          (Inl x, self', w') \<Rightarrow> (Inl x, w')
        | (Inr u, self', w') \<Rightarrow> (Inr self', w'))"
proof (intro conjI impI)
  let ?msg = "''Session not found or invalid, attempting to login.''"
  have out: "stdout (snd (snd (login e s u p (print ?msg w)))) = stdout w @ [?msg]" for s u p
    by (simp add: login_keeps_stdout print_def)
  {
    assume "load_session e (session_manager self) = Inr sm \<and> is_token_valid sm"
    then show "init_session e self w = (Inr (), self\<lparr>session_manager := sm\<rparr>, w)"
      by (simp add: init_session_def)
  next
    assume a: "load_session e (session_manager self) = Inr sm \<and> \<not> is_token_valid sm"
    then show eq: "init_session e self w =
        (case login e (self\<lparr>session_manager := sm\<rparr>) (username self) (password self)
                (print ?msg w) of
           (r, self', w') \<Rightarrow> (map_sum id (\<lambda>_. ()) r, self', w'))"
      by (simp add: init_session_def split: prod.splits sum.splits)
    show "stdout (snd (snd (init_session e self w))) = stdout w @ [?msg]"
      using out [of "self\<lparr>session_manager := sm\<rparr>" "username self" "password self"]
      by (simp add: eq case_prod_unfold)
  next
    assume a: "load_session e (session_manager self) = Inl SessionNotLoadedException"
    then show eq: "init_session e self w =
        (case login e self (username self) (password self) (print ?msg w) of
           (r, self', w') \<Rightarrow> (map_sum id (\<lambda>_. ()) r, self', w'))"
      by (simp add: init_session_def split: prod.splits sum.splits)
    show "stdout (snd (snd (init_session e self w))) = stdout w @ [?msg]"
      using out [of self "username self" "password self"]
      by (simp add: eq case_prod_unfold)
  next
    show "KolHalashonAPI_init e usr pwd True path w =
       (case init_session e (new_api e usr pwd True path) w of
          (Inl x, self', w') \<Rightarrow> (Inl x, w')
        | (Inr u, self', w') \<Rightarrow> (Inr self', w'))"
      by (simp add: KolHalashonAPI_init_def)
  }
qed

text \<open>
  C3 evaluated on the sample service: a valid persisted session, a persisted session
  with an empty token, no persisted session.
\<close>

theorem init_session_login_policy_witness:
  "init_session (demo_env 200 None (Some (demo_saved (JStr ''tok'')))) (demo_api True) demo_world =
     (Inr (),
      (demo_api True)\<lparr>session_manager :=
         \<lparr>session_file = ''session.pkl'', session_data = demo_saved (JStr ''tok'')\<rparr>\<rparr>,
      demo_world)
   \<and> stdout (snd (snd (init_session
         (demo_env 200 (Some (JObj [(''Token'', JStr ''tok'')])) (Some (demo_saved (JStr []))))
         (demo_api True) demo_world))) = [''Session not found or invalid, attempting to login.'']
   \<and> stdout (snd (snd (init_session
         (demo_env 200 (Some (JObj [(''Token'', JStr ''tok'')])) None)
         (demo_api True) demo_world))) = [''Session not found or invalid, attempting to login.'']"
proof -
  let ?sm1 = "\<lparr>session_file = ''session.pkl'', session_data = demo_saved (JStr ''tok'')\<rparr>"
  let ?sm2 = "\<lparr>session_file = ''session.pkl'', session_data = demo_saved (JStr [])\<rparr>"
  let ?e1 = "demo_env 200 None (Some (demo_saved (JStr ''tok'')))"
  let ?e2 = "demo_env 200 (Some (JObj [(''Token'', JStr ''tok'')])) (Some (demo_saved (JStr [])))"
  let ?e3 = "demo_env 200 (Some (JObj [(''Token'', JStr ''tok'')])) None"
  have h1: "load_session ?e1 (session_manager (demo_api True)) = Inr ?sm1 \<and> is_token_valid ?sm1"
    by (simp add: load_session_def demo_env_def demo_api_def SessionManager_init_def
          is_token_valid_def demo_saved_def)
  have h2: "load_session ?e2 (session_manager (demo_api True)) = Inr ?sm2 \<and> \<not> is_token_valid ?sm2"
    by (simp add: load_session_def demo_env_def demo_api_def SessionManager_init_def
          is_token_valid_def demo_saved_def)
  have h3: "load_session ?e3 (session_manager (demo_api True)) = Inl SessionNotLoadedException"
    by (simp add: load_session_def demo_env_def)
  have c1: "init_session ?e1 (demo_api True) demo_world =
              (Inr (), (demo_api True)\<lparr>session_manager := ?sm1\<rparr>, demo_world)"
    using h1 init_session_login_policy
            [where e = ?e1 and self = "demo_api True" and sm = ?sm1 and w = demo_world
               and usr = None and pwd = None and path = "[]"]
    by blast
  have c2: "stdout (snd (snd (init_session ?e2 (demo_api True) demo_world))) =
              stdout demo_world @ [''Session not found or invalid, attempting to login.'']"
    using h2 init_session_login_policy
            [where e = ?e2 and self = "demo_api True" and sm = ?sm2 and w = demo_world
               and usr = None and pwd = None and path = "[]"]
    by blast
  have c3: "stdout (snd (snd (init_session ?e3 (demo_api True) demo_world))) =
              stdout demo_world @ [''Session not found or invalid, attempting to login.'']"
    using h3 init_session_login_policy
            [where e = ?e3 and self = "demo_api True" and sm = ?sm1 and w = demo_world
               and usr = None and pwd = None and path = "[]"]
    by blast
  show ?thesis
    using c1 c2 c3 by (simp add: demo_world_def)
qed

text \<open>
  C10 (as amended).  On a 200 response whose body maps \<open>Token\<close> to the empty string,
  \<open>login\<close> does what it does when \<open>Token\<close> is absent: it raises \<open>AuthenticationError\<close>
  and leaves the session manager as it was.  Whenever \<open>login\<close> raises, the session
  manager is unchanged.  Whenever it succeeds, the stored token is the body's \<open>Token\<close>, a
  truthy value, hence never the empty string.
\<close>

theorem login_empty_token_like_absent:
  "(usr \<noteq> [] \<and> pwd \<noteq> []
      \<and> status_code (server e (net_log w) (login_request self usr pwd)) = 200
      \<and> resp_json (server e (net_log w) (login_request self usr pwd)) = Some (JObj data)
      \<and> (map_of data ''Token'' = None \<or> map_of data ''Token'' = Some (JStr [])) \<longrightarrow>
        login e self usr pwd w =
          (Inl (AuthenticationError ''Login successful but no token found''), self,
           w\<lparr>net_log := net_log w @ [login_request self usr pwd]\<rparr>))
   \<and> (fst (login e self usr pwd w) = Inl x \<longrightarrow> fst (snd (login e self usr pwd w)) = self)
   \<and> (fst (login e self usr pwd w) = Inr b \<longrightarrow>
        truthy (auth_token (session_data (session_manager (fst (snd (login e self usr pwd w))))))
      \<and> auth_token (session_data (session_manager (fst (snd (login e self usr pwd w))))) \<noteq> JStr []
      \<and> map_of (case resp_json (server e (net_log w) (login_request self usr pwd)) of
                   Some (JObj body) \<Rightarrow> body | _ \<Rightarrow> []) ''Token'' =
          Some (auth_token (session_data (session_manager (fst (snd (login e self usr pwd w)))))))"
proof (cases "resp_json (server e (net_log w) (login_request self usr pwd))")
  case None
  then show ?thesis by (simp add: login_unfold)
next
  case (Some j)
  then show ?thesis
    by (cases j) (auto simp: login_unfold set_tokens_def split: option.splits)
qed

text \<open>
  C10 (as amended) evaluated on the sample service: an empty token, a proper token.
\<close>

theorem login_empty_token_like_absent_witness:
  "login (demo_env 200 (Some (JObj [(''Token'', JStr [])])) None) (demo_api True) ''user'' ''pw'' demo_world =
     (Inl (AuthenticationError ''Login successful but no token found''), demo_api True,
      demo_world\<lparr>net_log := [login_request (demo_api True) ''user'' ''pw'']\<rparr>)
   \<and> auth_token (session_data (session_manager (fst (snd
        (login (demo_env 200 (Some (JObj [(''Token'', JStr ''tok'')])) None) (demo_api True)
           ''user'' ''pw'' demo_world))))) = JStr ''tok''"
  using login_empty_token_like_absent
          [where usr = "''user''" and pwd = "''pw''"
             and e = "demo_env 200 (Some (JObj [(''Token'', JStr [])])) None"
             and w = demo_world and self = "demo_api True" and data = "[(''Token'', JStr [])]"
             and x = AttributeError and b = True]
        login_empty_token_like_absent
          [where usr = "''user''" and pwd = "''pw''"
             and e = "demo_env 200 (Some (JObj [(''Token'', JStr ''tok'')])) None"
             and w = demo_world and self = "demo_api True" and data = "[]"
             and x = AttributeError and b = True]
  by (simp add: login_unfold set_tokens_def demo_env_def demo_response_def demo_world_def)

text \<open>
  C10 as stated fails in its last clause: a body whose \<open>Token\<close> is the number 1 passes the
  truth test, \<open>login\<close> succeeds, and the stored token is that number, not a string.
\<close>

theorem login_stores_non_string_token_counterexample:
  "fst (login (demo_env 200 (Some (JObj [(''Token'', JInt 1)])) None) (demo_api True)
          ''user'' ''pw'' demo_world) = Inr True
   \<and> auth_token (session_data (session_manager (fst (snd
        (login (demo_env 200 (Some (JObj [(''Token'', JInt 1)])) None) (demo_api True)
           ''user'' ''pw'' demo_world))))) = JInt 1
   \<and> \<not> is_str (JInt 1)"
  by (simp add: login_unfold set_tokens_def demo_env_def demo_response_def demo_world_def)

section \<open>The speaker listing\<close>

lemma rav_list_Delegating: "rav_list e self (Delegating sub) w = (shiurim_list sub, w)"
proof (induction sub rule: shiurim_list.induct)
  case (1 g)
  show ?case
    apply (subst rav_list.simps)
    apply (subst shiurim_list.simps)
    using 1
    apply (auto simp: rav_next_def yield_from_def split: prod.splits step.splits)
    done
qed

lemma rav_list_Created:
  "rav_list e self (Created rav_id) w =
     ((if status_code (server e (net_log w) (rav_request self rav_id)) = 200 then
         (case resp_json (server e (net_log w) (rav_request self rav_id)) of
            None \<Rightarrow> ([], Some JSONDecodeError)
          | Some shiurim \<Rightarrow> shiurim_list (format_shiurim shiurim))
       else
         ([], Some (SearchFailedException
            (''Error fetching Rav Shiurim for Rav ID: '' @ str_int rav_id)
            (status_code (server e (net_log w) (rav_request self rav_id)))))),
      w\<lparr>net_log := net_log w @ [rav_request self rav_id]\<rparr>)"
  apply (subst rav_list.simps)
  apply (subst shiurim_list.simps)
  apply (auto simp: rav_next_def yield_from_def send_def response_json_def rav_list_Delegating
              split: prod.splits step.splits option.splits)
  done

text \<open>
  C4.  Calling \<open>search_rav_shiurim\<close> only creates the generator: the world is untouched,
  so no request has been issued, and the call cannot raise.  The first \<^verbatim>\<open>next\<close> issues
  the one request, a POST; later steps issue none, so a full iteration issues exactly
  that one request.  On a status other than 200 the first \<^verbatim>\<open>next\<close> raises
  \<open>SearchFailedException\<close> with the rav id in its message and the status code.  On status
  200 with a list of mappings as body, iterating yields the mapped items, one per
  entry and in order, and ends without an error.
\<close>

theorem search_rav_shiurim_is_lazy:
  "search_rav_shiurim self rav_id w = (Created rav_id, w)
   \<and> meth (rav_request self rav_id) = POST
   \<and> snd (rav_next e self (Created rav_id) w) = w\<lparr>net_log := net_log w @ [rav_request self rav_id]\<rparr>
   \<and> snd (rav_next e self (Delegating sub) w) = w
   \<and> snd (rav_next e self Finished w) = w
   \<and> snd (rav_list e self (Created rav_id) w) = w\<lparr>net_log := net_log w @ [rav_request self rav_id]\<rparr>
   \<and> (status_code (server e (net_log w) (rav_request self rav_id)) \<noteq> 200 \<longrightarrow>
        fst (rav_next e self (Created rav_id) w) =
          (Raise (SearchFailedException (''Error fetching Rav Shiurim for Rav ID: '' @ str_int rav_id)
                    (status_code (server e (net_log w) (rav_request self rav_id)))), Finished))
   \<and> (status_code (server e (net_log w) (rav_request self rav_id)) = 200
        \<and> resp_json (server e (net_log w) (rav_request self rav_id)) = Some (JList (map JObj ds)) \<longrightarrow>
        (\<exists>items. fst (rav_list e self (Created rav_id) w) = (items, None)
           \<and> map Inr items = map (\<lambda>d. format_shiur (JObj d)) ds))"
proof -
  have "\<exists>items. shiurim_list (format_shiurim (JList (map JObj ds))) = (items, None)
          \<and> map Inr items = map (\<lambda>d. format_shiur (JObj d)) ds"
    using shiurim_list_dicts [of ds] by (simp add: format_shiurim_def shiurim_list_Fresh)
  then show ?thesis
    by (auto simp: search_rav_shiurim_def rav_request_def [of self rav_id, THEN arg_cong [of _ _ meth]]
          rav_list_Created rav_next_def send_def
          split: prod.splits sum.splits)
qed

text \<open>
  C4 evaluated on the sample service: status 500, and status 200 with two entries.
\<close>

theorem search_rav_shiurim_is_lazy_witness:
  "fst (rav_next (demo_env 500 None None) (demo_api False) (Created 5) demo_world) =
     (Raise (SearchFailedException ''Error fetching Rav Shiurim for Rav ID: 5'' 500), Finished)
   \<and> map Inr (fst (fst (rav_list
         (demo_env 200 (Some (JList [JObj [(''FileId'', JInt 42)], JObj []])) None)
         (demo_api False) (Created 5) demo_world))) =
       [format_shiur (JObj [(''FileId'', JInt 42)]), format_shiur (JObj [])]
   \<and> snd (fst (rav_list
         (demo_env 200 (Some (JList [JObj [(''FileId'', JInt 42)], JObj []])) None)
         (demo_api False) (Created 5) demo_world)) = None"
proof -
  have "fst (rav_next (demo_env 500 None None) (demo_api False) (Created 5) demo_world) =
     (Raise (SearchFailedException ''Error fetching Rav Shiurim for Rav ID: 5'' 500), Finished)"
    using search_rav_shiurim_is_lazy
            [where e = "demo_env 500 None None" and self = "demo_api False" and rav_id = 5
               and w = demo_world and ds = "[]" and sub = Exhausted]
    by (simp add: demo_env_def demo_response_def str_int_def str_nat.simps)
  moreover have "\<exists>items. fst (rav_list
         (demo_env 200 (Some (JList [JObj [(''FileId'', JInt 42)], JObj []])) None)
         (demo_api False) (Created 5) demo_world) = (items, None)
       \<and> map Inr items = [format_shiur (JObj [(''FileId'', JInt 42)]), format_shiur (JObj [])]"
    using search_rav_shiurim_is_lazy
            [where e = "demo_env 200 (Some (JList [JObj [(''FileId'', JInt 42)], JObj []])) None"
               and self = "demo_api False" and rav_id = 5 and w = demo_world
               and ds = "[[(''FileId'', JInt 42)], []]" and sub = Exhausted]
    by (simp add: demo_env_def demo_response_def)
  ultimately show ?thesis by auto
qed

section \<open>Downloads\<close>

lemma foldl_append_chunks: "foldl (\<lambda>written chunk. written @ chunk) acc xs = acc @ concat xs"
  by (induction xs arbitrary: acc) simp_all

lemma concat_iter_content: "0 < n \<Longrightarrow> concat (iter_content n bs) = bs"
proof (induction n bs rule: iter_content.induct)
  case (1 chunk_size bs)
  then show ?case
    by (subst iter_content.simps) auto
qed

text \<open>
  C5.  A client constructed with \<open>use_session = False\<close> is constructed without any effect,
  and on it \<open>download_file\<close> raises \<open>SessionDisabledException\<close> for every file id and
  quality level, leaving the world as it was: no request issued, nothing printed, no
  file written.  The same holds for any client whose \<open>use_session\<close> is off.
\<close>

theorem download_file_requires_session:
  "(\<exists>self. KolHalashonAPI_init e usr pwd False path w = (Inr self, w)
       \<and> download_file e self fid q w' = (Inl SessionDisabledException, w'))
   \<and> download_file e (self\<lparr>use_session := False\<rparr>) fid q w' = (Inl SessionDisabledException, w')"
  by (simp add: KolHalashonAPI_init_def new_api_def download_file_def)

text \<open>
  C5 evaluated on the sample client without a session.
\<close>

theorem download_file_requires_session_witness:
  "download_file (demo_env 200 None None) (demo_api False) 7 VIDEO demo_world =
     (Inl SessionDisabledException, demo_world)"
  using download_file_requires_session
          [where e = "demo_env 200 None None" and self = "demo_api False" and fid = 7 and q = VIDEO
             and w' = demo_world and usr = None and pwd = None and path = "[]" and w = demo_world]
  by (simp add: demo_api_def)

text \<open>
  C6.  In session-backed mode, once the download key has been obtained: on status 200
  \<open>download_file\<close> returns the name \<open>shiur_{file id}_{quality name}.{extension}\<close>, with
  \<open>audio\<close>/\<open>mp3\<close> for \<open>AUDIO\<close>, \<open>video\<close>/\<open>mp4\<close> for \<open>VIDEO\<close> and \<open>hd\<close>/\<open>mp4\<close> for \<open>HD\<close>, and
  the file of that name holds the whole body; for file id 7 and \<open>VIDEO\<close> the name is
  \<open>shiur_7_video.mp4\<close>.  On any other status it raises \<open>DownloadFailedException\<close> with the
  status code, the file id and the quality level, and writes no file.
\<close>

theorem download_file_name_and_failure:
  "(use_session self \<and> get_download_key e (session_manager self) fid = Inr dkey
      \<and> status_code (server e (net_log w) (download_request e self fid q dkey)) = 200 \<longrightarrow>
        fst (download_file e self fid q w) =
          Inr (''shiur_'' @ str_int fid @ ''_''
                 @ (case q of AUDIO \<Rightarrow> ''audio'' | VIDEO \<Rightarrow> ''video'' | HD \<Rightarrow> ''hd'')
                 @ ''.'' @ (case q of AUDIO \<Rightarrow> ''mp3'' | VIDEO \<Rightarrow> ''mp4'' | HD \<Rightarrow> ''mp4''))
      \<and> (\<exists>name. fst (download_file e self fid q w) = Inr name
            \<and> map_of (files (snd (download_file e self fid q w))) name =
                Some (resp_content (server e (net_log w) (download_request e self fid q dkey)))))
   \<and> (use_session self \<and> get_download_key e (session_manager self) 7 = Inr dkey
      \<and> status_code (server e (net_log w) (download_request e self 7 VIDEO dkey)) = 200 \<longrightarrow>
        fst (download_file e self 7 VIDEO w) = Inr ''shiur_7_video.mp4'')
   \<and> (use_session self \<and> get_download_key e (session_manager self) fid = Inr dkey
      \<and> status_code (server e (net_log w) (download_request e self fid q dkey)) \<noteq> 200 \<longrightarrow>
        fst (download_file e self fid q w) =
          Inl (DownloadFailedException ''Download failed''
                 (status_code (server e (net_log w) (download_request e self fid q dkey))) fid q)
      \<and> files (snd (download_file e self fid q w)) = files w)"
  by (cases q)
     (auto simp: download_file_def send_def print_def Let_def foldl_append_chunks
        concat_iter_content str_int_def str_nat.simps)

text \<open>
  C6 evaluated on the sample service: the three quality levels on status 200, and
  status 404.
\<close>

theorem download_file_name_and_failure_witness:
  "fst (download_file (demo_env 200 None None) (demo_api True) 7 VIDEO demo_world) =
     Inr ''shiur_7_video.mp4''
   \<and> fst (download_file (demo_env 200 None None) (demo_api True) (- 12) AUDIO demo_world) =
     Inr ''shiur_-12_audio.mp3''
   \<and> fst (download_file (demo_env 200 None None) (demo_api True) 305 HD demo_world) =
     Inr ''shiur_305_hd.mp4''
   \<and> fst (download_file (demo_env 404 None None) (demo_api True) 7 HD demo_world) =
     Inl (DownloadFailedException ''Download failed'' 404 7 HD)"
  using download_file_name_and_failure
          [where e = "demo_env 200 None None" and self = "demo_api True" and fid = 7 and q = VIDEO
             and dkey = "''k''" and w = demo_world]
        download_file_name_and_failure
          [where e = "demo_env 200 None None" and self = "demo_api True" and fid = "- 12" and q = AUDIO
             and dkey = "''k''" and w = demo_world]
        download_file_name_and_failure
          [where e = "demo_env 200 None None" and self = "demo_api True" and fid = 305 and q = HD
             and dkey = "''k''" and w = demo_world]
        download_file_name_and_failure
          [where e = "demo_env 404 None None" and self = "demo_api True" and fid = 7 and q = HD
             and dkey = "''k''" and w = demo_world]
  by (simp add: demo_env_def demo_response_def demo_api_def get_download_key_def
        str_int_def str_nat.simps)

section \<open>Shiur details\<close>

text \<open>
  C9.  \<open>get_shiur_details\<close> raises \<open>ShiurDetailsNotFoundException\<close> exactly when the status
  is not 200; the exception carries the file id and nothing else (its constructor has
  no place for the status code).  On status 200 with a mapping as body it returns the
  mapped \<open>ShiurDetails\<close>.  Either way exactly one request is issued.
\<close>

theorem get_shiur_details_outcomes:
  "(fst (get_shiur_details e self fid w) = Inl (ShiurDetailsNotFoundException fid)
      \<longleftrightarrow> status_code (server e (net_log w) (details_request self fid)) \<noteq> 200)
   \<and> (status_code (server e (net_log w) (details_request self fid)) = 200
        \<and> resp_json (server e (net_log w) (details_request self fid)) = Some (JObj data) \<longrightarrow>
        fst (get_shiur_details e self fid w) = parse_shiur_details (JObj data)
      \<and> (\<exists>details. parse_shiur_details (JObj data) = Inr details))
   \<and> snd (get_shiur_details e self fid w) = w\<lparr>net_log := net_log w @ [details_request self fid]\<rparr>"
proof (cases "resp_json (server e (net_log w) (details_request self fid))")
  case None
  then show ?thesis
    by (simp add: get_shiur_details_def send_def response_json_def)
next
  case (Some j)
  then show ?thesis
    by (cases j) (simp_all add: get_shiur_details_def send_def response_json_def)
qed

text \<open>
  C9 evaluated on the sample service: status 404 for file id 99, and status 200.
\<close>

theorem get_shiur_details_outcomes_witness:
  "fst (get_shiur_details (demo_env 404 None None) (demo_api False) 99 demo_world) =
     Inl (ShiurDetailsNotFoundException 99)
   \<and> fst (get_shiur_details (demo_env 200 (Some (JObj [(''FileId'', JInt 99)])) None)
            (demo_api False) 99 demo_world) =
       parse_shiur_details (JObj [(''FileId'', JInt 99)])"
  using get_shiur_details_outcomes
          [where e = "demo_env 404 None None" and self = "demo_api False" and fid = 99
             and w = demo_world and data = "[]"]
        get_shiur_details_outcomes
          [where e = "demo_env 200 (Some (JObj [(''FileId'', JInt 99)])) None"
             and self = "demo_api False" and fid = 99 and w = demo_world
             and data = "[(''FileId'', JInt 99)]"]
  by (simp add: demo_env_def demo_response_def)

section \<open>Request headers\<close>









end
